theory Spec2Isabelle
  imports Complex_Main
begin

section \<open>The bottom sheet of src/sheet.tsx\<close>

text \<open>
  The component \<^verbatim>\<open>Sheet\<close> keeps a live offset \<^verbatim>\<open>y\<close>, a drag indicator rotation
  and a list of snap points, and reacts to drag events, to changes of \<^verbatim>\<open>isOpen\<close> and
  to the imperative \<^verbatim>\<open>snapTo\<close>. JavaScript numbers are modelled as \<^typ>\<open>real\<close>: the
  arithmetic of the handlers is read exactly, without the rounding of IEEE doubles.
  Indices handed to \<^verbatim>\<open>onSnap\<close> are \<^typ>\<open>int\<close>, since \<^verbatim>\<open>indexOf\<close> may answer \<open>-1\<close>.
\<close>

subsection \<open>Data\<close>

text \<open>
  What a handler does to the outside world, in the order it does it: a call of the
  host's \<^verbatim>\<open>onClose()\<close>, a call of the host's \<^verbatim>\<open>onSnap(index)\<close>, and a request
  \<^verbatim>\<open>animate(y, target, spring)\<close> to the animation library.
\<close>

datatype call = OnClose | OnSnap int | Animate real

text \<open>
  The only failure of the handlers: \<^verbatim>\<open>sheetRef.current\<close> is \<^verbatim>\<open>null\<close> (the ref is
  created by \<^verbatim>\<open>useRef(null)\<close>) and \<^verbatim>\<open>sheetEl.getBoundingClientRect()\<close> throws a
  TypeError. \<open>NoCandidate\<close> stands for choosing the closest of no candidates.
\<close>

datatype error = TypeError | NoCandidate

text \<open>
  The mutable cells of the component: the motion values \<^verbatim>\<open>y\<close> and
  \<^verbatim>\<open>indicatorRotation\<close> (read with \<^verbatim>\<open>get()\<close>, written with \<^verbatim>\<open>set()\<close>), and the
  trace of calls made so far.
\<close>

record sheet =
  y_value :: real
  indicatorRotation :: real
  calls :: "call list"

text \<open>
  The variables a handler closes over. \<open>snapPoints\<close> is the variable after the
  reassignment of line 48, that is, the normalized points; \<open>None\<close> is
  \<^verbatim>\<open>undefined\<close>. \<open>onSnap\<close> tells whether the host passed the callback.
  \<open>sheetRef\<close> is \<open>None\<close> while \<^verbatim>\<open>sheetRef.current\<close> is \<^verbatim>\<open>null\<close> and otherwise
  holds the height of the element's bounding rectangle.
\<close>

record scope =
  isOpen :: bool
  onSnap :: bool
  snapPoints :: "real list option"
  initialSnap :: int
  mounted :: bool
  sheetRef :: "real option"

subsection \<open>Normalizing the snap points (lines 46 to 51)\<close>

definition normalizePoint :: "real \<Rightarrow> real \<Rightarrow> real" where
  "normalizePoint windowHeight point =
     (if point > 0 \<and> point \<le> 1 then point * windowHeight
      else if point < 0 then windowHeight + point else point)"

definition normalizeSnapPoints :: "real \<Rightarrow> real list option \<Rightarrow> real list option" where
  "normalizeSnapPoints windowHeight sp =
     (case sp of None \<Rightarrow> None
      | Some points \<Rightarrow> Some (map (normalizePoint windowHeight) points))"

subsection \<open>Dragging (lines 60 to 68)\<close>

text \<open>
  \<open>velocity\<close> is what \<^verbatim>\<open>y.getVelocity()\<close> answers, \<open>delta_y\<close> is \<^verbatim>\<open>delta.y\<close> of the
  pan event.
\<close>

definition handleDrag :: "real \<Rightarrow> real \<Rightarrow> sheet \<Rightarrow> sheet" where
  "handleDrag velocity delta_y st =
     (let st1 = (if velocity > 0 then st\<lparr>indicatorRotation := 10\<rparr> else st);
          st2 = (if velocity < 0 then st1\<lparr>indicatorRotation := - 10\<rparr> else st1)
      in st2\<lparr>y_value := max (y_value st2 + delta_y) 0\<rparr>)"

text \<open>A drag gesture: one update for each event, given as (velocity, delta.y).\<close>

fun handleDrags :: "(real \<times> real) list \<Rightarrow> sheet \<Rightarrow> sheet" where
  "handleDrags [] st = st"
| "handleDrags ((velocity, delta_y) # evs) st = handleDrags evs (handleDrag velocity delta_y st)"

subsection \<open>Helpers of the release\<close>

text \<open>
  Modelled from the spec: \<^verbatim>\<open>getClosest\<close> is imported from \<^verbatim>\<open>./utils\<close>, which is not
  among the sources. The specification asks for the candidate numerically closest to
  the goal, the first minimal one in sequence order on a tie. It names no result for an
  empty sequence, which is \<open>None\<close> here.
\<close>

fun getClosest :: "real list \<Rightarrow> real \<Rightarrow> real option" where
  "getClosest [] goal = None"
| "getClosest (n # nums) goal =
     Some (foldl (\<lambda>prev curr. if \<bar>curr - goal\<bar> < \<bar>prev - goal\<bar> then curr else prev) n nums)"

text \<open>\<^verbatim>\<open>Math.round\<close>: the nearest integer, a half rounded towards plus infinity.\<close>

definition Math_round :: "real \<Rightarrow> int" where
  "Math_round x = \<lfloor>x + 1 / 2\<rfloor>"

text \<open>\<^verbatim>\<open>Array.prototype.indexOf\<close>: the first position holding the value, or \<open>-1\<close>.\<close>

fun indexOfFrom :: "real list \<Rightarrow> real \<Rightarrow> int \<Rightarrow> int" where
  "indexOfFrom [] v i = - 1"
| "indexOfFrom (x # xs) v i = (if x = v then i else indexOfFrom xs v (i + 1))"

definition indexOf :: "real list \<Rightarrow> real \<Rightarrow> int" where
  "indexOf xs v = indexOfFrom xs v 0"

text \<open>
  The test \<^verbatim>\<open>y.get() / contentHeight > 0.6\<close>. Dividing by zero does not fail in
  JavaScript: a positive dividend gives \<^verbatim>\<open>Infinity\<close>, which exceeds 0.6, a negative one
  gives \<^verbatim>\<open>-Infinity\<close> and zero gives \<^verbatim>\<open>NaN\<close>, which do not.
\<close>

definition draggedOver60 :: "real \<Rightarrow> real \<Rightarrow> bool" where
  "draggedOver60 yv contentHeight =
     (if contentHeight = 0 then yv > 0 else yv / contentHeight > 6 / 10)"

text \<open>The target of a release (lines 78 to 82), the local constant \<^verbatim>\<open>snapTo\<close>.\<close>

definition releaseTarget :: "real list option \<Rightarrow> real \<Rightarrow> real \<Rightarrow> real option" where
  "releaseTarget sp contentHeight yv =
     (case sp of
        Some points \<Rightarrow> getClosest (map (\<lambda>p. contentHeight - p) points) yv
      | None \<Rightarrow> Some (if draggedOver60 yv contentHeight then contentHeight else 0))"

text \<open>
  The index handed to \<^verbatim>\<open>onSnap\<close> (lines 88 and 89). \<^verbatim>\<open>snapPoints[0]\<close> of an empty
  array is \<^verbatim>\<open>undefined\<close>, the arithmetic gives \<^verbatim>\<open>NaN\<close>, and \<^verbatim>\<open>indexOf(NaN)\<close> is \<open>-1\<close>.
\<close>

definition recoverIndex :: "real list \<Rightarrow> real \<Rightarrow> int" where
  "recoverIndex points target =
     (case points of
        [] \<Rightarrow> - 1
      | p0 # _ \<Rightarrow> indexOf points (of_int \<bar>Math_round (p0 - target)\<bar>))"

definition emit :: "call \<Rightarrow> sheet \<Rightarrow> sheet" where
  "emit c st = st\<lparr>calls := calls st @ [c]\<rparr>"

subsection \<open>The end of a drag (lines 70 to 100)\<close>

definition handleDragEnd :: "scope \<Rightarrow> real \<Rightarrow> sheet \<Rightarrow> error + sheet" where
  "handleDragEnd sc velocity_y st =
     (if velocity_y > 500 then Inr ((emit OnClose st)\<lparr>indicatorRotation := 0\<rparr>)
      else
        (case sheetRef sc of
           None \<Rightarrow> Inl TypeError
         | Some contentHeight \<Rightarrow>
            (case releaseTarget (snapPoints sc) contentHeight (y_value st) of
               None \<Rightarrow> Inl NoCandidate
             | Some target \<Rightarrow>
                (let st1 = emit (Animate target) st;
                     st2 = (case snapPoints sc of
                              Some points \<Rightarrow>
                                if onSnap sc then emit (OnSnap (recoverIndex points target)) st1
                                else st1
                            | None \<Rightarrow> st1);
                     st3 = (if target \<ge> contentHeight then emit OnClose st2 else st2)
                 in Inr (st3\<lparr>indicatorRotation := 0\<rparr>)))))"

subsection \<open>The effect on a change of isOpen (lines 113 to 117)\<close>

definition isOpenEffect :: "scope \<Rightarrow> sheet \<Rightarrow> sheet" where
  "isOpenEffect sc st =
     (case snapPoints sc of
        None \<Rightarrow> st
      | Some points \<Rightarrow>
          if \<not> onSnap sc \<or> \<not> mounted sc then st
          else emit (OnSnap (if isOpen sc then initialSnap sc else int (length points) - 1)) st)"

subsection \<open>The imperative handle (lines 119 to 131)\<close>

text \<open>
  \<^verbatim>\<open>snapPoints[snapIndex] !== undefined\<close> holds exactly for an index of the array: the
  elements are numbers, and any other index reads \<^verbatim>\<open>undefined\<close>.
\<close>

definition snapTo :: "scope \<Rightarrow> int \<Rightarrow> sheet \<Rightarrow> error + sheet" where
  "snapTo sc snapIndex st =
     (case snapPoints sc of
        None \<Rightarrow> Inr st
      | Some points \<Rightarrow>
          if 0 \<le> snapIndex \<and> snapIndex < int (length points) then
            (case sheetRef sc of
               None \<Rightarrow> Inl TypeError
             | Some contentHeight \<Rightarrow>
                (let target = contentHeight - points ! nat snapIndex;
                     st1 = emit (Animate target) st;
                     st2 = (if onSnap sc then emit (OnSnap snapIndex) st1 else st1);
                     st3 = (if target \<ge> contentHeight then emit OnClose st2 else st2)
                 in Inr st3))
          else Inr st)"

text \<open>The calls a handler added to the trace.\<close>

definition newCalls :: "sheet \<Rightarrow> sheet \<Rightarrow> call list" where
  "newCalls st st' = drop (length (calls st)) (calls st')"

section \<open>Properties\<close>

subsection \<open>Helper lemmas\<close>

lemma indexOfFrom_nth:
  "distinct xs \<Longrightarrow> i < length xs \<Longrightarrow> indexOfFrom xs (xs ! i) k = k + int i"
proof (induction xs arbitrary: i k)
  case Nil
  then show ?case by simp
next
  case (Cons x xs)
  show ?case
  proof (cases i)
    case 0
    then show ?thesis by simp
  next
    case (Suc j)
    with Cons.prems have "xs ! j \<in> set xs" "x \<notin> set xs" "j < length xs" by auto
    then have "x \<noteq> xs ! j" by auto
    with Cons Suc show ?thesis by simp
  qed
qed

lemma foldl_closest:
  "foldl (\<lambda>prev curr. if \<bar>curr - goal\<bar> < \<bar>prev - (goal::real)\<bar> then curr else prev) a xs \<in> insert a (set xs) \<and>
   (\<forall>c \<in> insert a (set xs). \<bar>foldl (\<lambda>prev curr. if \<bar>curr - goal\<bar> < \<bar>prev - goal\<bar> then curr else prev) a xs - goal\<bar> \<le> \<bar>c - goal\<bar>)"
proof (induction xs arbitrary: a)
  case Nil
  then show ?case by simp
next
  case (Cons x xs)
  let ?f = "\<lambda>prev curr. if \<bar>curr - goal\<bar> < \<bar>prev - goal\<bar> then curr else prev"
  let ?a' = "?f a x"
  have step: "foldl ?f a (x # xs) = foldl ?f ?a' xs" by simp
  have a': "?a' \<in> {a, x}" "\<bar>?a' - goal\<bar> \<le> \<bar>a - goal\<bar>" "\<bar>?a' - goal\<bar> \<le> \<bar>x - goal\<bar>"
    by auto
  from Cons.IH [of ?a'] have ih1: "foldl ?f ?a' xs \<in> insert ?a' (set xs)"
    and ih2: "\<forall>c \<in> insert ?a' (set xs). \<bar>foldl ?f ?a' xs - goal\<bar> \<le> \<bar>c - goal\<bar>"
    by blast+
  from ih1 a'(1) have m: "foldl ?f ?a' xs \<in> insert a (set (x # xs))" by auto
  from ih2 have le: "\<bar>foldl ?f ?a' xs - goal\<bar> \<le> \<bar>?a' - goal\<bar>" by blast
  have "\<forall>c \<in> insert a (set (x # xs)). \<bar>foldl ?f ?a' xs - goal\<bar> \<le> \<bar>c - goal\<bar>"
  proof
    fix c assume "c \<in> insert a (set (x # xs))"
    then consider "c = a" | "c = x" | "c \<in> set xs" by auto
    then show "\<bar>foldl ?f ?a' xs - goal\<bar> \<le> \<bar>c - goal\<bar>"
    proof cases
      case 1 with le a'(2) show ?thesis by linarith
    next
      case 2 with le a'(3) show ?thesis by linarith
    next
      case 3 with ih2 show ?thesis by blast
    qed
  qed
  with m step show ?case by simp
qed

lemma getClosest_closest:
  "nums \<noteq> [] \<Longrightarrow> \<exists>t. getClosest nums goal = Some t \<and> t \<in> set nums \<and> (\<forall>c \<in> set nums. \<bar>t - goal\<bar> \<le> \<bar>c - goal\<bar>)"
proof (cases nums)
  case Nil
  moreover assume "nums \<noteq> []"
  ultimately show ?thesis by simp
next
  case (Cons n ns)
  from foldl_closest [of goal n ns] show ?thesis unfolding Cons by simp
qed

lemma Math_round_of_int: "Math_round (of_int n) = n"
  by (simp add: Math_round_def)

lemma indexOf_nth: "distinct xs \<Longrightarrow> i < length xs \<Longrightarrow> indexOf xs (xs ! i) = int i"
  by (simp add: indexOf_def indexOfFrom_nth)

lemma draggedOver60_iff: "0 \<le> contentHeight \<Longrightarrow>
  (if draggedOver60 yv contentHeight then contentHeight else 0) = (if yv > 6 / 10 * contentHeight then contentHeight else 0)"
  by (cases "contentHeight = 0") (auto simp: draggedOver60_def field_simps)

lemma handleDrag_y: "y_value (handleDrag v d st) = max (y_value st + d) 0"
  by (simp add: handleDrag_def Let_def)

lemma handleDrags_nonneg: "evs \<noteq> [] \<or> 0 \<le> y_value st \<Longrightarrow> 0 \<le> y_value (handleDrags evs st)"
proof (induction evs arbitrary: st)
  case Nil
  then show ?case by simp
next
  case (Cons ev evs)
  obtain v d where ev: "ev = (v, d)" by (cases ev)
  have "0 \<le> y_value (handleDrag v d st)" by (simp add: handleDrag_y)
  then have "0 \<le> y_value (handleDrags evs (handleDrag v d st))" by (intro Cons.IH) simp
  with ev show ?case by simp
qed

lemma releaseTarget_snap:
  assumes "points \<noteq> []"
  shows "\<exists>t. releaseTarget (Some points) contentHeight yv = Some t \<and>
     t \<in> set (map (\<lambda>p. contentHeight - p) points) \<and>
     (\<forall>c \<in> set (map (\<lambda>p. contentHeight - p) points). \<bar>t - yv\<bar> \<le> \<bar>c - yv\<bar>)"
proof -
  from assms have "map (\<lambda>p. contentHeight - p) points \<noteq> []" by simp
  from getClosest_closest [OF this, of yv] show ?thesis by (simp add: releaseTarget_def)
qed

lemma handleDragEnd_animates:
  assumes "\<not> 500 < velocity_y" and "sheetRef sc = Some contentHeight"
    and "releaseTarget (snapPoints sc) contentHeight (y_value st) = Some t"
  shows "\<exists>st' rest. handleDragEnd sc velocity_y st = Inr st' \<and> newCalls st st' = Animate t # rest"
  using assms by (auto simp: handleDragEnd_def emit_def newCalls_def Let_def split: option.splits)

lemma getClosest_exact:
  assumes "t \<in> set nums"
  shows "getClosest nums t = Some t"
proof -
  from assms have "nums \<noteq> []" by auto
  from getClosest_closest [OF this, of t] obtain r where r: "getClosest nums t = Some r"
    and best: "\<forall>c \<in> set nums. \<bar>r - t\<bar> \<le> \<bar>c - t\<bar>" by blast
  from best assms have "\<bar>r - t\<bar> \<le> \<bar>t - t\<bar>" by blast
  then have "r = t" by simp
  with r show ?thesis by simp
qed

subsection \<open>The claims\<close>

text \<open>
  C1. A release whose vertical velocity does not exceed 500 requests an animation to a
  target chosen as follows. With snap points configured, the target is one of the
  candidates \<open>contentHeight - p\<close>, \<open>p\<close> a normalized snap point, and no candidate is
  closer to the live offset. Without snap points, the target is \<open>contentHeight\<close> if the
  live offset exceeds 60% of \<open>contentHeight\<close>, and 0 otherwise. With the points
  [400, 200, 0], content height 400 and live offset 250 the target is 200. The panel is
  measured (\<open>sheetRef\<close> holds a height, which is not negative), and a configured
  sequence of snap points is not empty.
\<close>

theorem release_target:
  assumes "velocity_y \<le> 500" and "sheetRef sc = Some contentHeight" and "0 \<le> contentHeight"
  shows "(\<forall>points. snapPoints sc = Some points \<and> points \<noteq> [] \<longrightarrow>
            (\<exists>t st' rest. handleDragEnd sc velocity_y st = Inr st' \<and>
               newCalls st st' = Animate t # rest \<and>
               t \<in> set (map (\<lambda>p. contentHeight - p) points) \<and>
               (\<forall>c \<in> set (map (\<lambda>p. contentHeight - p) points).
                  \<bar>t - y_value st\<bar> \<le> \<bar>c - y_value st\<bar>))) \<and>
         (snapPoints sc = None \<longrightarrow>
            (\<exists>st' rest. handleDragEnd sc velocity_y st = Inr st' \<and>
               newCalls st st' =
                 Animate (if y_value st > 6 / 10 * contentHeight then contentHeight else 0) # rest)) \<and>
         releaseTarget (Some [400, 200, 0]) 400 250 = Some 200"
proof (intro conjI allI impI)
  fix points assume sp: "snapPoints sc = Some points \<and> points \<noteq> []"
  then obtain t where t: "releaseTarget (Some points) contentHeight (y_value st) = Some t"
    and mem: "t \<in> set (map (\<lambda>p. contentHeight - p) points)"
    and best: "\<forall>c \<in> set (map (\<lambda>p. contentHeight - p) points). \<bar>t - y_value st\<bar> \<le> \<bar>c - y_value st\<bar>"
    using releaseTarget_snap [of points contentHeight "y_value st"] by blast
  from assms(1) have nv: "\<not> 500 < velocity_y" by simp
  from t sp have "releaseTarget (snapPoints sc) contentHeight (y_value st) = Some t" by simp
  from handleDragEnd_animates [OF nv assms(2) this]
  obtain st' rest where "handleDragEnd sc velocity_y st = Inr st'" "newCalls st st' = Animate t # rest"
    by blast
  with mem best
  show "\<exists>t st' rest. handleDragEnd sc velocity_y st = Inr st' \<and>
               newCalls st st' = Animate t # rest \<and>
               t \<in> set (map (\<lambda>p. contentHeight - p) points) \<and>
               (\<forall>c \<in> set (map (\<lambda>p. contentHeight - p) points).
                  \<bar>t - y_value st\<bar> \<le> \<bar>c - y_value st\<bar>)"
    by blast
next
  assume sp: "snapPoints sc = None"
  from assms(1) have nv: "\<not> 500 < velocity_y" by simp
  have "releaseTarget (snapPoints sc) contentHeight (y_value st) =
          Some (if y_value st > 6 / 10 * contentHeight then contentHeight else 0)"
    using draggedOver60_iff [OF assms(3), of "y_value st"] sp by (simp add: releaseTarget_def)
  from handleDragEnd_animates [OF nv assms(2) this]
  show "\<exists>st' rest. handleDragEnd sc velocity_y st = Inr st' \<and>
               newCalls st st' =
                 Animate (if y_value st > 6 / 10 * contentHeight then contentHeight else 0) # rest"
    by blast
next
  show "releaseTarget (Some [400, 200, 0]) 400 250 = Some 200"
    by (simp add: releaseTarget_def)
qed

theorem release_target_witness:
  "(0::real) \<le> 500 \<and> (0::real) \<le> 300 \<and>
   (\<exists>st' rest. handleDragEnd \<lparr>isOpen = True, onSnap = False, snapPoints = None, initialSnap = 0,
         mounted = True, sheetRef = Some 300\<rparr> 0 \<lparr>y_value = 190, indicatorRotation = 10, calls = []\<rparr> = Inr st' \<and>
       newCalls \<lparr>y_value = 190, indicatorRotation = 10, calls = []\<rparr> st' = Animate 300 # rest) \<and>
   (\<exists>st' rest. handleDragEnd \<lparr>isOpen = True, onSnap = True, snapPoints = Some [400, 200, 0], initialSnap = 0,
         mounted = True, sheetRef = Some 400\<rparr> 0 \<lparr>y_value = 250, indicatorRotation = 10, calls = []\<rparr> = Inr st' \<and>
       newCalls \<lparr>y_value = 250, indicatorRotation = 10, calls = []\<rparr> st' = Animate 200 # rest)"
proof -
  have a: "(0::real) \<le> 500" and b: "(0::real) \<le> 300" and c: "(0::real) \<le> 400" by simp_all
  let ?sc1 = "\<lparr>isOpen = True, onSnap = False, snapPoints = None, initialSnap = 0,
         mounted = True, sheetRef = Some (300::real)\<rparr>"
  let ?sc2 = "\<lparr>isOpen = True, onSnap = True, snapPoints = Some [400, 200, 0], initialSnap = 0,
         mounted = True, sheetRef = Some (400::real)\<rparr>"
  have r1: "sheetRef ?sc1 = Some 300" and r2: "sheetRef ?sc2 = Some 400" by simp_all
  from release_target [OF a r1 b, of "\<lparr>y_value = 190, indicatorRotation = 10, calls = []\<rparr>"]
  have one: "\<exists>st' rest. handleDragEnd ?sc1 0 \<lparr>y_value = 190, indicatorRotation = 10, calls = []\<rparr> = Inr st' \<and>
       newCalls \<lparr>y_value = 190, indicatorRotation = 10, calls = []\<rparr> st' = Animate 300 # rest"
    by simp
  from release_target [OF a r2 c, of "\<lparr>y_value = 250, indicatorRotation = 10, calls = []\<rparr>"]
  obtain t st' rest where h: "handleDragEnd ?sc2 0 \<lparr>y_value = 250, indicatorRotation = 10, calls = []\<rparr> = Inr st'"
      "newCalls \<lparr>y_value = 250, indicatorRotation = 10, calls = []\<rparr> st' = Animate t # rest"
      and t: "t \<in> {0, 200, 400}" "\<bar>t - 250\<bar> \<le> 50"
    by auto
  from t have "t = 200" by auto
  with h have two: "\<exists>st' rest. handleDragEnd ?sc2 0 \<lparr>y_value = 250, indicatorRotation = 10, calls = []\<rparr> = Inr st' \<and>
       newCalls \<lparr>y_value = 250, indicatorRotation = 10, calls = []\<rparr> st' = Animate 200 # rest"
    by blast
  from a b one two show ?thesis by blast
qed

text \<open>
  C2. A release with vertical velocity above 500 calls \<^verbatim>\<open>onClose\<close> and nothing else:
  whatever the live offset, the snap points and the panel reference are, the handler
  succeeds, the only new call is \<open>OnClose\<close> (no animation is requested, hence no target
  computed, and \<^verbatim>\<open>onSnap\<close> is not called), and the live offset is untouched. The reset
  of the drag indicator, which ends every release, is the one other change.
\<close>

theorem fast_dismiss:
  "500 < velocity_y \<Longrightarrow>
     handleDragEnd sc velocity_y st = Inr (st\<lparr>indicatorRotation := 0, calls := calls st @ [OnClose]\<rparr>) \<and>
     (\<forall>st'. handleDragEnd sc velocity_y st = Inr st' \<longrightarrow>
        newCalls st st' = [OnClose] \<and> y_value st' = y_value st)"
  by (auto simp: handleDragEnd_def emit_def newCalls_def)

theorem fast_dismiss_witness:
  "(500::real) < 501 \<and>
   handleDragEnd \<lparr>isOpen = True, onSnap = True, snapPoints = Some [400, 200, 0], initialSnap = 0,
       mounted = True, sheetRef = None\<rparr> 501 \<lparr>y_value = 10, indicatorRotation = 10, calls = []\<rparr>
     = Inr \<lparr>y_value = 10, indicatorRotation = 0, calls = [OnClose]\<rparr>"
  using fast_dismiss [of 501 "\<lparr>isOpen = True, onSnap = True, snapPoints = Some [400, 200, 0], initialSnap = 0,
       mounted = True, sheetRef = None\<rparr>" "\<lparr>y_value = 10, indicatorRotation = 10, calls = []\<rparr>"]
  by simp


text \<open>
  C3. Normalizing a sequence of snap specifications at window height \<open>H\<close> gives a
  sequence of the same length whose element \<open>i\<close> is \<open>v * H\<close> if \<open>0 < v \<le> 1\<close>,
  \<open>H + v\<close> if \<open>v < 0\<close>, and \<open>v\<close> otherwise, for the raw value \<open>v\<close> at \<open>i\<close>; nothing
  is clamped. So 0.5 gives \<open>0.5 * H\<close>, -100 gives \<open>H - 100\<close> and 250 gives 250.
\<close>

theorem normalize_each:
  "\<exists>ns. normalizeSnapPoints H (Some vs) = Some ns \<and> length ns = length vs \<and>
     (\<forall>i < length vs. ns ! i =
        (if 0 < vs ! i \<and> vs ! i \<le> 1 then vs ! i * H
         else if vs ! i < 0 then H + vs ! i else vs ! i)) \<and>
     normalizePoint H (1 / 2) = 1 / 2 * H \<and>
     normalizePoint H (- 100) = H - 100 \<and>
     normalizePoint H 250 = 250"
  by (simp add: normalizeSnapPoints_def normalizePoint_def)

theorem normalize_each_witness:
  "\<exists>ns. normalizeSnapPoints 800 (Some [1 / 2, - 100, 250]) = Some ns \<and> length ns = 3 \<and>
     ns ! 0 = 400 \<and> ns ! 1 = 700 \<and> ns ! 2 = 250"
proof -
  from normalize_each [of 800 "[1 / 2, - 100, 250]"]
  obtain ns where ns: "normalizeSnapPoints 800 (Some [1 / 2, - 100, 250]) = Some ns"
    and len: "length ns = length [1 / 2, - 100, 250 :: real]"
    and el: "\<forall>i < length [1 / 2, - 100, 250 :: real]. ns ! i =
        (if 0 < [1 / 2, - 100, 250 :: real] ! i \<and> [1 / 2, - 100, 250 :: real] ! i \<le> 1 then [1 / 2, - 100, 250] ! i * 800
         else if [1 / 2, - 100, 250 :: real] ! i < 0 then 800 + [1 / 2, - 100, 250] ! i else [1 / 2, - 100, 250] ! i)"
    by blast
  from el have "ns ! 0 = 400" by simp
  moreover from el [rule_format, of 1] have "ns ! 1 = 700" by simp
  moreover from el [rule_format, of 2] have "ns ! 2 = 250" by simp
  ultimately show ?thesis using ns len by simp
qed

text \<open>
  C7. A drag update with delta \<open>d\<close> moves the live offset from \<open>c\<close> to
  \<open>max (c + d) 0\<close>, which is \<open>c + d\<close> itself whenever that is not negative (moving
  down is not bounded). Hence after any sequence of drag updates from a non-negative
  offset, and after any non-empty sequence from any offset, the live offset is not
  negative.
\<close>

theorem drag_clamp:
  "y_value (handleDrag v d st) = max (y_value st + d) 0 \<and>
   (0 \<le> y_value st + d \<longrightarrow> y_value (handleDrag v d st) = y_value st + d) \<and>
   (0 \<le> y_value st \<longrightarrow> 0 \<le> y_value (handleDrags evs st)) \<and>
   (evs \<noteq> [] \<longrightarrow> 0 \<le> y_value (handleDrags evs st))"
  using handleDrags_nonneg [of evs st] by (simp add: handleDrag_y)

theorem drag_clamp_witness:
  "y_value (handleDrag 3 (- 70) \<lparr>y_value = 50, indicatorRotation = 0, calls = []\<rparr>) = 0 \<and>
   y_value (handleDrag 3 700 \<lparr>y_value = 50, indicatorRotation = 0, calls = []\<rparr>) = 750 \<and>
   0 \<le> y_value (handleDrags [(3, 20), (- 2, - 90), (0, 5)] \<lparr>y_value = 50, indicatorRotation = 0, calls = []\<rparr>)"
  using drag_clamp [of 3 "- 70" "\<lparr>y_value = 50, indicatorRotation = 0, calls = []\<rparr>" "[(3, 20), (- 2, - 90), (0, 5)]"]
    drag_clamp [of 3 700 "\<lparr>y_value = 50, indicatorRotation = 0, calls = []\<rparr>" "[]"]
  by simp

text \<open>
  C4. As stated, the round trip fails: with the normalized points [400.5, 200, 0] and
  content height 400.5 the first point equals the content height and the points are
  distinct, yet the target of index 0 is mapped to \<open>-1\<close>, since \<^verbatim>\<open>Math.round\<close> turns
  400.5 into 401, which is no snap point.
\<close>

theorem index_recovery_counterexample:
  "hd [801 / 2, 200, 0 :: real] = 801 / 2 \<and> distinct [801 / 2, 200, 0 :: real] \<and>
   recoverIndex [801 / 2, 200, 0] (801 / 2 - [801 / 2, 200, 0] ! 0) = - 1"
  by (simp add: recoverIndex_def indexOf_def Math_round_def)

text \<open>
  C4, amended. When the first normalized snap point equals the content height and the
  points are distinct, the index recovered from the target \<open>contentHeight - points ! i\<close>
  is \<open>i\<close> for every index \<open>i\<close> whose normalized point is a non-negative whole number.
\<close>

theorem index_recovery:
  assumes "points \<noteq> []" and "hd points = contentHeight" and "distinct points"
    and "i < length points" and "points ! i \<in> \<nat>"
  shows "recoverIndex points (contentHeight - points ! i) = int i"
proof -
  from assms(1,2) obtain ps where ps: "points = contentHeight # ps" by (cases points) auto
  from assms(5) obtain n where n: "points ! i = of_nat n" by (auto simp: Nats_def)
  have "Math_round (contentHeight - (contentHeight - points ! i)) = int n"
    using Math_round_of_int [of "int n"] n by simp
  then have "recoverIndex points (contentHeight - points ! i) = indexOf points (of_int \<bar>int n\<bar>)"
    unfolding ps recoverIndex_def by simp
  also have "\<dots> = indexOf points (points ! i)" using n by simp
  also have "\<dots> = int i" using assms(3,4) by (rule indexOf_nth)
  finally show ?thesis .
qed

theorem index_recovery_witness:
  "[400, 200, 0 :: real] \<noteq> [] \<and> hd [400, 200, 0 :: real] = 400 \<and> distinct [400, 200, 0 :: real] \<and>
   (1::nat) < length [400, 200, 0 :: real] \<and> [400, 200, 0 :: real] ! 1 \<in> \<nat> \<and>
   recoverIndex [400, 200, 0] (400 - [400, 200, 0] ! 1) = 1"
proof -
  have a: "[400, 200, 0 :: real] \<noteq> []" and b: "hd [400, 200, 0 :: real] = 400"
    and c: "distinct [400, 200, 0 :: real]" and d: "(1::nat) < length [400, 200, 0 :: real]"
    by simp_all
  have "(200::real) \<in> \<nat>" by simp
  then have e: "[400, 200, 0 :: real] ! 1 \<in> \<nat>" by simp
  from index_recovery [OF a b c d e] a b c d e show ?thesis by simp
qed

text \<open>
  C5. \<^verbatim>\<open>snapTo(N)\<close> changes nothing and calls nothing when no snap points are
  configured or \<open>N\<close> is not an index of them. For an index \<open>N\<close> and a measured panel it
  requests the animation to \<open>contentHeight - points ! N\<close>, then calls \<^verbatim>\<open>onSnap(N)\<close>
  (when the host passed \<^verbatim>\<open>onSnap\<close>), then \<^verbatim>\<open>onClose\<close> if the target is at least
  \<open>contentHeight\<close>. The target is the release resolver's candidate number \<open>N\<close>, and
  the one a release at that very offset resolves to.
\<close>

theorem snapTo_spec:
  "(snapPoints sc = None \<longrightarrow> snapTo sc N st = Inr st) \<and>
   (\<forall>points. snapPoints sc = Some points \<and> (N < 0 \<or> int (length points) \<le> N) \<longrightarrow>
      snapTo sc N st = Inr st) \<and>
   (\<forall>points contentHeight.
      snapPoints sc = Some points \<and> 0 \<le> N \<and> N < int (length points) \<and>
      sheetRef sc = Some contentHeight \<longrightarrow>
        snapTo sc N st =
          Inr (st\<lparr>calls := calls st @ [Animate (contentHeight - points ! nat N)] @
                 (if onSnap sc then [OnSnap N] else []) @
                 (if contentHeight - points ! nat N \<ge> contentHeight then [OnClose] else [])\<rparr>) \<and>
        contentHeight - points ! nat N = map (\<lambda>p. contentHeight - p) points ! nat N \<and>
        releaseTarget (snapPoints sc) contentHeight (contentHeight - points ! nat N) =
          Some (contentHeight - points ! nat N))"
proof (intro conjI allI impI)
  assume "snapPoints sc = None"
  then show "snapTo sc N st = Inr st" by (simp add: snapTo_def)
next
  fix points assume "snapPoints sc = Some points \<and> (N < 0 \<or> int (length points) \<le> N)"
  then show "snapTo sc N st = Inr st" by (auto simp: snapTo_def)
next
  fix points contentHeight
  assume h: "snapPoints sc = Some points \<and> 0 \<le> N \<and> N < int (length points) \<and>
      sheetRef sc = Some contentHeight"
  then show "snapTo sc N st =
          Inr (st\<lparr>calls := calls st @ [Animate (contentHeight - points ! nat N)] @
                 (if onSnap sc then [OnSnap N] else []) @
                 (if contentHeight - points ! nat N \<ge> contentHeight then [OnClose] else [])\<rparr>)"
    by (simp add: snapTo_def emit_def Let_def)
  from h have lt: "nat N < length points" by linarith
  then show "contentHeight - points ! nat N = map (\<lambda>p. contentHeight - p) points ! nat N"
    by simp
  from lt have "contentHeight - points ! nat N \<in> set (map (\<lambda>p. contentHeight - p) points)"
    by (metis (no_types, lifting) length_map nth_map nth_mem)
  from getClosest_exact [OF this] h
  show "releaseTarget (snapPoints sc) contentHeight (contentHeight - points ! nat N) =
          Some (contentHeight - points ! nat N)"
    by (simp add: releaseTarget_def)
qed

theorem snapTo_spec_witness:
  "snapTo \<lparr>isOpen = True, onSnap = True, snapPoints = None, initialSnap = 0, mounted = True,
       sheetRef = Some 400\<rparr> 0 \<lparr>y_value = 0, indicatorRotation = 0, calls = []\<rparr>
     = Inr \<lparr>y_value = 0, indicatorRotation = 0, calls = []\<rparr> \<and>
   snapTo \<lparr>isOpen = True, onSnap = True, snapPoints = Some [400, 200, 0], initialSnap = 0, mounted = True,
       sheetRef = Some 400\<rparr> 3 \<lparr>y_value = 0, indicatorRotation = 0, calls = []\<rparr>
     = Inr \<lparr>y_value = 0, indicatorRotation = 0, calls = []\<rparr> \<and>
   snapTo \<lparr>isOpen = True, onSnap = True, snapPoints = Some [400, 200, 0], initialSnap = 0, mounted = True,
       sheetRef = Some 400\<rparr> 2 \<lparr>y_value = 0, indicatorRotation = 0, calls = []\<rparr>
     = Inr \<lparr>y_value = 0, indicatorRotation = 0, calls = [Animate 400, OnSnap 2, OnClose]\<rparr>"
  using snapTo_spec [of "\<lparr>isOpen = True, onSnap = True, snapPoints = None, initialSnap = 0, mounted = True,
       sheetRef = Some 400\<rparr>" 0 "\<lparr>y_value = 0, indicatorRotation = 0, calls = []\<rparr>"]
    snapTo_spec [of "\<lparr>isOpen = True, onSnap = True, snapPoints = Some [400, 200, 0], initialSnap = 0, mounted = True,
       sheetRef = Some 400\<rparr>" 3 "\<lparr>y_value = 0, indicatorRotation = 0, calls = []\<rparr>"]
    snapTo_spec [of "\<lparr>isOpen = True, onSnap = True, snapPoints = Some [400, 200, 0], initialSnap = 0, mounted = True,
       sheetRef = Some 400\<rparr>" 2 "\<lparr>y_value = 0, indicatorRotation = 0, calls = []\<rparr>"]
  by simp

text \<open>
  C6. The effect that React runs when \<^verbatim>\<open>isOpen\<close> has changed, with the component
  mounted and both snap points and \<^verbatim>\<open>onSnap\<close> configured, calls \<^verbatim>\<open>onSnap\<close> once: with
  \<^verbatim>\<open>initialSnap\<close> if the sheet is now open, with \<open>length - 1\<close> if it is now closed. It
  reads neither the live offset nor anything a drag writes. With three snap points and
  \<^verbatim>\<open>initialSnap = 1\<close>, opening reports 1 and closing reports 2.
\<close>

theorem isOpen_snap:
  assumes "mounted sc" and "onSnap sc" and "snapPoints sc = Some points"
  shows "isOpenEffect sc st =
           st\<lparr>calls := calls st @ [OnSnap (if isOpen sc then initialSnap sc else int (length points) - 1)]\<rparr> \<and>
         isOpenEffect (sc\<lparr>isOpen := True, initialSnap := 1, snapPoints := Some [A, B, C]\<rparr>) st =
           st\<lparr>calls := calls st @ [OnSnap 1]\<rparr> \<and>
         isOpenEffect (sc\<lparr>isOpen := False, initialSnap := 1, snapPoints := Some [A, B, C]\<rparr>) st =
           st\<lparr>calls := calls st @ [OnSnap 2]\<rparr>"
  using assms by (simp add: isOpenEffect_def emit_def)

theorem isOpen_snap_witness:
  "isOpenEffect \<lparr>isOpen = True, onSnap = True, snapPoints = Some [400, 200, 0], initialSnap = 1,
       mounted = True, sheetRef = None\<rparr> \<lparr>y_value = 0, indicatorRotation = 0, calls = []\<rparr>
     = \<lparr>y_value = 0, indicatorRotation = 0, calls = [OnSnap 1]\<rparr> \<and>
   isOpenEffect \<lparr>isOpen = False, onSnap = True, snapPoints = Some [400, 200, 0], initialSnap = 1,
       mounted = True, sheetRef = None\<rparr> \<lparr>y_value = 0, indicatorRotation = 0, calls = []\<rparr>
     = \<lparr>y_value = 0, indicatorRotation = 0, calls = [OnSnap 2]\<rparr>"
  using isOpen_snap [of "\<lparr>isOpen = True, onSnap = True, snapPoints = Some [400, 200, 0], initialSnap = 1,
       mounted = True, sheetRef = None\<rparr>" "[400, 200, 0]" "\<lparr>y_value = 0, indicatorRotation = 0, calls = []\<rparr>"]
    isOpen_snap [of "\<lparr>isOpen = False, onSnap = True, snapPoints = Some [400, 200, 0], initialSnap = 1,
       mounted = True, sheetRef = None\<rparr>" "[400, 200, 0]" "\<lparr>y_value = 0, indicatorRotation = 0, calls = []\<rparr>"]
  by simp

text \<open>
  C8. The code at the failing input: the normalized points are [350, 200, 0], the panel
  is 400 high (the first point is not the content height) and the sheet is released at
  offset 0. The target is 50, the snap value is \<open>\<bar>round (350 - 50)\<bar> = 300\<close>, which is no
  snap point, \<^verbatim>\<open>indexOf\<close> answers \<open>-1\<close>, and \<^verbatim>\<open>onSnap(-1)\<close> is called.
\<close>

theorem unmatched_index_fires_onSnap:
  "recoverIndex [350, 200, 0] 50 = - 1 \<and>
   handleDragEnd \<lparr>isOpen = True, onSnap = True, snapPoints = Some [350, 200, 0], initialSnap = 0,
       mounted = True, sheetRef = Some 400\<rparr> 0 \<lparr>y_value = 0, indicatorRotation = 10, calls = []\<rparr>
     = Inr \<lparr>y_value = 0, indicatorRotation = 0, calls = [Animate 50, OnSnap (- 1)]\<rparr>"
  by (simp add: handleDragEnd_def releaseTarget_def recoverIndex_def indexOf_def Math_round_def emit_def)

text \<open>
  C9. The code at the failing input: with \<^verbatim>\<open>sheetRef.current\<close> still \<^verbatim>\<open>null\<close>,
  \<^verbatim>\<open>snapTo(0)\<close> on configured snap points, and likewise a release below the fast-dismiss
  threshold, end in the TypeError of \<^verbatim>\<open>sheetEl.getBoundingClientRect()\<close>.
\<close>

theorem unmeasured_panel_throws:
  "snapTo \<lparr>isOpen = False, onSnap = True, snapPoints = Some [400, 200, 0], initialSnap = 0,
       mounted = True, sheetRef = None\<rparr> 0 \<lparr>y_value = 400, indicatorRotation = 0, calls = []\<rparr>
     = Inl TypeError \<and>
   handleDragEnd \<lparr>isOpen = True, onSnap = True, snapPoints = Some [400, 200, 0], initialSnap = 0,
       mounted = True, sheetRef = None\<rparr> 0 \<lparr>y_value = 250, indicatorRotation = 10, calls = []\<rparr>
     = Inl TypeError"
  by (simp add: snapTo_def handleDragEnd_def)

text \<open>
  C10. The effect of opening does not check \<^verbatim>\<open>initialSnap\<close> against the snap points:
  mounted, with snap points and \<^verbatim>\<open>onSnap\<close> configured and \<^verbatim>\<open>isOpen\<close> now true, it calls
  \<^verbatim>\<open>onSnap\<close> with an \<^verbatim>\<open>initialSnap\<close> that is no index of the sequence, unchanged.
\<close>

theorem initialSnap_unchecked:
  assumes "mounted sc" and "onSnap sc" and "snapPoints sc = Some points" and "isOpen sc"
    and "initialSnap sc < 0 \<or> int (length points) \<le> initialSnap sc"
  shows "isOpenEffect sc st = st\<lparr>calls := calls st @ [OnSnap (initialSnap sc)]\<rparr>"
  using assms by (simp add: isOpenEffect_def emit_def)

theorem initialSnap_unchecked_witness:
  "((7::int) < 0 \<or> int (length [400, 200, 0 :: real]) \<le> 7) \<and>
   isOpenEffect \<lparr>isOpen = True, onSnap = True, snapPoints = Some [400, 200, 0], initialSnap = 7,
       mounted = True, sheetRef = None\<rparr> \<lparr>y_value = 0, indicatorRotation = 0, calls = []\<rparr>
     = \<lparr>y_value = 0, indicatorRotation = 0, calls = [OnSnap 7]\<rparr>"
  using initialSnap_unchecked [of "\<lparr>isOpen = True, onSnap = True, snapPoints = Some [400, 200, 0], initialSnap = 7,
       mounted = True, sheetRef = None\<rparr>" "[400, 200, 0]" "\<lparr>y_value = 0, indicatorRotation = 0, calls = []\<rparr>"]
  by simp

end
